theory Spec2Isabelle
  imports Main "HOL-Library.Sublist" "HOL-Library.Char_ord" "HOL-Library.List_Lexorder"
begin

section \<open>Python strings\<close>

text \<open>
  The scripts read the project descriptor into one Python \<open>str\<close> and edit it with
  \<open>str.replace\<close>, \<open>str.split\<close>, \<open>str.join\<close>, \<open>str.strip\<close> and the \<open>re\<close> module.
  A \<open>str\<close> is modelled as a \<open>string\<close> whose characters are the code points below 256.
\<close>

abbreviation NL :: string where "NL \<equiv> [CHR 0x0A]"
abbreviation TAB :: string where "TAB \<equiv> [CHR 0x09]"
abbreviation TAB2 :: string where "TAB2 \<equiv> [CHR 0x09, CHR 0x09]"
abbreviation TAB3 :: string where "TAB3 \<equiv> [CHR 0x09, CHR 0x09, CHR 0x09]"
abbreviation TAB4 :: string where "TAB4 \<equiv> [CHR 0x09, CHR 0x09, CHR 0x09, CHR 0x09]"

text \<open>\<open>s.replace(old, new)\<close>: every occurrence, scanned left to right, not overlapping.\<close>

function replace_py :: "string \<Rightarrow> string \<Rightarrow> string \<Rightarrow> string" where
  "replace_py old new [] = (if old = [] then new else [])"
| "replace_py old new (c # cs) =
     (if old = [] then new @ c # replace_py old new cs
      else if prefix old (c # cs) then new @ replace_py old new (drop (length old) (c # cs))
      else c # replace_py old new cs)"
  by pat_completeness auto
termination
  by (relation "measure (\<lambda>(old, new, s). length s)") auto

text \<open>\<open>s.split('\n')\<close> and \<open>sep.join(parts)\<close>.\<close>

fun split_nl :: "string \<Rightarrow> string list" where
  "split_nl [] = [[]]"
| "split_nl (c # cs) =
     (if c = CHR 0x0A then [] # split_nl cs
      else (case split_nl cs of [] \<Rightarrow> [[c]] | l # ls \<Rightarrow> (c # l) # ls))"

fun join :: "string \<Rightarrow> string list \<Rightarrow> string" where
  "join sep [] = []"
| "join sep [l] = l"
| "join sep (l # m # ls) = l @ sep @ join sep (m # ls)"

text \<open>\<open>str.isspace\<close>, which is also the class \<open>\s\<close> of \<open>re\<close>, and the class \<open>\w\<close>.\<close>

definition py_isspace :: "char \<Rightarrow> bool" where
  "py_isspace c = (let n = (of_char c :: nat) in
     (9 \<le> n \<and> n \<le> 13) \<or> (28 \<le> n \<and> n \<le> 32) \<or> n = 133 \<or> n = 160)"

definition py_isword :: "char \<Rightarrow> bool" where
  "py_isword c = (let n = (of_char c :: nat) in
     (48 \<le> n \<and> n \<le> 57) \<or> (65 \<le> n \<and> n \<le> 90) \<or> n = 95 \<or> (97 \<le> n \<and> n \<le> 122) \<or>
     n = 170 \<or> n = 178 \<or> n = 179 \<or> n = 181 \<or> n = 185 \<or> n = 186 \<or>
     (188 \<le> n \<and> n \<le> 190) \<or> (192 \<le> n \<and> n \<le> 214) \<or> (216 \<le> n \<and> n \<le> 246) \<or> 248 \<le> n)"

definition strip :: "string \<Rightarrow> string" where
  "strip s = rev (dropWhile py_isspace (rev (dropWhile py_isspace s)))"

text \<open>\<open>x in s\<close> on strings.\<close>

fun contains :: "string \<Rightarrow> string \<Rightarrow> bool" where
  "contains [] x = (x = [])"
| "contains (c # cs) x = (prefix x (c # cs) \<or> contains cs x)"

text \<open>\<open>s[a:b]\<close> for \<open>0 \<le> a \<le> b\<close>.\<close>

definition slice :: "string \<Rightarrow> nat \<Rightarrow> nat \<Rightarrow> string" where
  "slice s a b = take (b - a) (drop a s)"

text \<open>\<open>str(n)\<close> for a natural number, as the f-strings print \<open>len(...)\<close>.\<close>

definition digit_char :: "nat \<Rightarrow> char" where
  "digit_char d = char_of (48 + d)"

function show_nat :: "nat \<Rightarrow> string" where
  "show_nat n = (if n < 10 then [digit_char n] else show_nat (n div 10) @ [digit_char (n mod 10)])"
  by pat_completeness auto
termination
  by (relation "measure id") auto

text \<open>\<open>os.path.basename\<close>: what follows the last slash.\<close>

definition basename :: "string \<Rightarrow> string" where
  "basename p = rev (takeWhile (\<lambda>c. c \<noteq> CHR ''/'') (rev p))"

section \<open>The fragment of \<open>re\<close> the scripts use\<close>

text \<open>
  Every pattern in the repository is a sequence of literal characters, character classes
  under one quantifier, and capture groups; there is no alternation and no quantified
  group. A pattern is a list of atoms, matched by backtracking as \<open>re\<close> does: a greedy
  quantifier tries the longest run first, a lazy one the shortest.
\<close>

datatype cclass = Lit char | Dot | DotAll | Space | WordCh | UHex | Not char

fun cmatch :: "cclass \<Rightarrow> char \<Rightarrow> bool" where
  "cmatch (Lit a) c = (c = a)"
| "cmatch Dot c = (c \<noteq> CHR 0x0A)"
| "cmatch DotAll c = True"
| "cmatch Space c = py_isspace c"
| "cmatch WordCh c = py_isword c"
| "cmatch UHex c = (c \<in> set ''0123456789ABCDEF'')"
| "cmatch (Not a) c = (c \<noteq> a)"

datatype atom = Ch cclass | Rep cclass nat "nat option" bool | GOpen nat | GClose nat

datatype gkey = GStart nat | GEnd nat

type_synonym caps = "(gkey \<times> nat) list"

fun under :: "nat option \<Rightarrow> nat \<Rightarrow> bool" where
  "under None k = True"
| "under (Some hi) k = (k < hi)"

text \<open>
  \<open>rmatch atoms k s pos caps\<close>: match the atoms against \<open>s\<close>, the text from offset \<open>pos\<close>
  on; \<open>k\<close> counts the repetitions already taken by a leading quantified atom; \<open>caps\<close>
  records the offsets where the groups start and end.
  The result is the end offset of the match and the group offsets.
\<close>

fun rmatch :: "atom list \<Rightarrow> nat \<Rightarrow> string \<Rightarrow> nat \<Rightarrow> caps \<Rightarrow> (nat \<times> caps) option" where
  "rmatch [] k s pos caps = Some (pos, caps)"
| "rmatch (GOpen n # as) k s pos caps = rmatch as 0 s pos ((GStart n, pos) # caps)"
| "rmatch (GClose n # as) k s pos caps = rmatch as 0 s pos ((GEnd n, pos) # caps)"
| "rmatch (Ch c # as) k [] pos caps = None"
| "rmatch (Ch c # as) k (x # xs) pos caps =
     (if cmatch c x then rmatch as 0 xs (Suc pos) caps else None)"
| "rmatch (Rep c lo hi g # as) k [] pos caps =
     (if lo \<le> k then rmatch as 0 [] pos caps else None)"
| "rmatch (Rep c lo hi g # as) k (x # xs) pos caps =
     (if g then
        (case (if cmatch c x \<and> under hi k
               then rmatch (Rep c lo hi g # as) (Suc k) xs (Suc pos) caps else None) of
           Some r \<Rightarrow> Some r
         | None \<Rightarrow> if lo \<le> k then rmatch as 0 (x # xs) pos caps else None)
      else
        (case (if lo \<le> k then rmatch as 0 (x # xs) pos caps else None) of
           Some r \<Rightarrow> Some r
         | None \<Rightarrow> if cmatch c x \<and> under hi k
               then rmatch (Rep c lo hi g # as) (Suc k) xs (Suc pos) caps else None))"

text \<open>A match object: start offset, end offset, group offsets.\<close>

type_synonym rematch = "nat \<times> nat \<times> caps"

text \<open>\<open>re.search\<close>: the leftmost start offset at which the pattern matches.\<close>

fun search_from :: "atom list \<Rightarrow> string \<Rightarrow> nat \<Rightarrow> rematch option" where
  "search_from as [] pos =
     (case rmatch as 0 [] pos [] of None \<Rightarrow> None | Some (e, caps) \<Rightarrow> Some (pos, e, caps))"
| "search_from as (x # xs) pos =
     (case rmatch as 0 (x # xs) pos [] of
        None \<Rightarrow> search_from as xs (Suc pos)
      | Some (e, caps) \<Rightarrow> Some (pos, e, caps))"

definition re_search :: "atom list \<Rightarrow> string \<Rightarrow> rematch option" where
  "re_search as s = search_from as s 0"

text \<open>\<open>m.group(n)\<close>, \<open>m.start()\<close>, \<open>m.end()\<close> on the searched text \<open>s\<close>.\<close>

definition m_start :: "rematch \<Rightarrow> nat" where
  "m_start m = fst m"

definition m_end :: "rematch \<Rightarrow> nat" where
  "m_end m = fst (snd m)"

definition group :: "string \<Rightarrow> rematch \<Rightarrow> nat \<Rightarrow> string" where
  "group s m n =
     (if n = 0 then slice s (m_start m) (m_end m)
      else (case map_of (snd (snd m)) (GStart n) of
              None \<Rightarrow> []
            | Some a \<Rightarrow>
                (case map_of (snd (snd m)) (GEnd n) of
                   None \<Rightarrow> []
                 | Some b \<Rightarrow> slice s a b)))"

text \<open>
  The successive matches that \<open>re.findall\<close> and \<open>re.sub\<close> visit: after a match the scan
  resumes at its end (one further on after an empty match).
\<close>

function matches_from :: "atom list \<Rightarrow> string \<Rightarrow> nat \<Rightarrow> rematch list" where
  "matches_from as s pos =
     (if length s < pos then []
      else (case search_from as (drop pos s) pos of
              None \<Rightarrow> []
            | Some m \<Rightarrow>
                m # matches_from as s
                      (max (Suc pos) (if m_start m < m_end m then m_end m else Suc (m_start m)))))"
  by pat_completeness auto
termination
  by (relation "measure (\<lambda>(as, s, pos). Suc (length s) - pos)") auto

text \<open>Literal text as atoms, and the quantifiers.\<close>

definition lit :: "string \<Rightarrow> atom list" where
  "lit s = map (\<lambda>c. Ch (Lit c)) s"

abbreviation star :: "cclass \<Rightarrow> atom" where "star c \<equiv> Rep c 0 None True"
abbreviation plus :: "cclass \<Rightarrow> atom" where "plus c \<equiv> Rep c (Suc 0) None True"
abbreviation lazy_star :: "cclass \<Rightarrow> atom" where "lazy_star c \<equiv> Rep c 0 None False"


text \<open>\<open>re.findall\<close> visits every match; \<open>re.sub\<close> rebuilds the text around the matches.\<close>

definition re_findall :: "atom list \<Rightarrow> string \<Rightarrow> rematch list" where
  "re_findall as s = matches_from as s 0"

fun build_sub :: "string \<Rightarrow> (rematch \<Rightarrow> string) \<Rightarrow> nat \<Rightarrow> rematch list \<Rightarrow> string" where
  "build_sub s repl pos [] = drop pos s"
| "build_sub s repl pos (m # ms) =
     slice s pos (m_start m) @ repl m @ build_sub s repl (m_end m) ms"

definition re_sub :: "atom list \<Rightarrow> (rematch \<Rightarrow> string) \<Rightarrow> string \<Rightarrow> string" where
  "re_sub as repl s = build_sub s repl 0 (re_findall as s)"

definition re_sub_once :: "atom list \<Rightarrow> (rematch \<Rightarrow> string) \<Rightarrow> string \<Rightarrow> string" where
  "re_sub_once as repl s =
     (case re_search as s of
        None \<Rightarrow> s
      | Some m \<Rightarrow> take (m_start m) s @ repl m @ drop (m_end m) s)"

section \<open>The world a script runs in\<close>

text \<open>
  A script reads and writes files, lists directories, prints, and draws random numbers.
  \<open>files\<close> maps a path to the text of the file; \<open>glob_result\<close> and \<open>path_exists\<close> answer
  \<open>glob.glob\<close> and \<open>os.path.exists\<close>; \<open>stdout\<close> holds the printed lines (non-ASCII
  characters as their UTF-8 bytes); \<open>random\<close> is the sequence of numbers the random source
  will deliver and \<open>drawn\<close> how many were consumed.
  A run ends normally (\<open>None\<close>) or with an exception.
\<close>

datatype py_exc = FileNotFoundError | AttributeError | SystemExit nat | TemplateEscape

record world =
  files :: "string \<Rightarrow> string option"
  glob_result :: "string \<Rightarrow> string list"
  path_exists :: "string \<Rightarrow> bool"
  stdout :: "string list"
  random :: "nat \<Rightarrow> nat"
  drawn :: nat

type_synonym run = "py_exc option \<times> world"

definition print :: "string \<Rightarrow> world \<Rightarrow> world" where
  "print line w = w\<lparr>stdout := stdout w @ [line]\<rparr>"

fun prints :: "string list \<Rightarrow> world \<Rightarrow> world" where
  "prints [] w = w"
| "prints (l # ls) w = prints ls (print l w)"

definition write_file :: "string \<Rightarrow> string \<Rightarrow> world \<Rightarrow> world" where
  "write_file path text w = w\<lparr>files := (files w)(path \<mapsto> text)\<rparr>"

definition project_file :: string where
  "project_file = ''DualCameraApp.xcodeproj/project.pbxproj''"

section \<open>update_project.py\<close>

text \<open>
  The pattern
  \<^verbatim>\<open>(\w+)\s*\/\*\s*(.+\.swift)\s*\*\/\s*=\s*\{isa\s*=\s*PBXFileReference\<close>
  of \<open>get_swift_files_in_project\<close> (and of \<open>get_missing_swift_files\<close> in
  fix_xcode_project.py).
\<close>

definition swift_file_ref_pattern :: "atom list" where
  "swift_file_ref_pattern =
     [GOpen 1, plus WordCh, GClose 1, star Space] @ lit ''/*'' @
     [star Space, GOpen 2, plus Dot] @ lit ''.swift'' @ [GClose 2, star Space] @ lit ''*/'' @
     [star Space] @ lit ''='' @ [star Space] @ lit ''{isa'' @ [star Space] @ lit ''='' @
     [star Space] @ lit ''PBXFileReference''"

definition get_swift_files_in_directory :: "world \<Rightarrow> string list" where
  "get_swift_files_in_directory w = sort (map basename (glob_result w ''DualCameraApp/*.swift''))"

definition get_swift_files_in_project :: "world \<Rightarrow> py_exc + string list" where
  "get_swift_files_in_project w =
     (case files w project_file of
        None \<Rightarrow> Inl FileNotFoundError
      | Some content \<Rightarrow>
          Inr (sort (map (\<lambda>m. group content m 2) (re_findall swift_file_ref_pattern content))))"

definition report_missing :: "string list \<Rightarrow> string list" where
  "report_missing missing_files =
     (if missing_files \<noteq> [] then
        [NL @ ''Missing '' @ show_nat (length missing_files) @ '' Swift files from project:''] @
        map (\<lambda>file. ''  - '' @ file) missing_files @
        [NL @ ''These files need to be added to the Xcode project manually.'',
         ''Please open the project in Xcode and add these files to the target.'']
      else [NL @ ''All Swift files are properly included in the project!''])"

definition update_project_main :: "world \<Rightarrow> run" where
  "update_project_main w =
     (let w1 = print ''Checking for missing Swift files in Xcode project...'' w;
          directory_files = get_swift_files_in_directory w1
      in case get_swift_files_in_project w1 of
           Inl e \<Rightarrow> (Some e, w1)
         | Inr project_files \<Rightarrow>
             (let w2 = prints
                    [''Swift files in directory: '' @ show_nat (length directory_files),
                     ''Swift files in project: '' @ show_nat (length project_files)] w1;
                  missing_files = filter (\<lambda>f. f \<notin> set project_files) directory_files
              in (None, prints (report_missing missing_files) w2)))"


section \<open>fix_xcode_project.py\<close>

text \<open>\<open>random.choice(seq)\<close> takes the element at the next random index.\<close>

definition random_choice :: "string \<Rightarrow> world \<Rightarrow> char \<times> world" where
  "random_choice seq w = (seq ! (random w (drawn w) mod length seq), w\<lparr>drawn := Suc (drawn w)\<rparr>)"

fun choices :: "nat \<Rightarrow> string \<Rightarrow> world \<Rightarrow> string \<times> world" where
  "choices 0 seq w = ([], w)"
| "choices (Suc n) seq w =
     (case random_choice seq w of (c, w1) \<Rightarrow>
        (case choices n seq w1 of (cs, w2) \<Rightarrow> (c # cs, w2)))"

definition generate_uuid :: "world \<Rightarrow> string \<times> world" where
  "generate_uuid w = choices 24 ''0123456789ABCDEF'' w"

definition get_missing_swift_files :: "world \<Rightarrow> py_exc + string list" where
  "get_missing_swift_files w =
     (let directory_files = map basename (glob_result w ''DualCameraApp/*.swift'')
      in case files w project_file of
           None \<Rightarrow> Inl FileNotFoundError
         | Some content \<Rightarrow>
             (let project_files =
                    map (\<lambda>m. group content m 2) (re_findall swift_file_ref_pattern content)
              in Inr (filter (\<lambda>f. f \<notin> set project_files) directory_files)))"

definition build_file_entry :: "string \<Rightarrow> string \<Rightarrow> string \<Rightarrow> string" where
  "build_file_entry build_file_id file_ref_id file =
     TAB2 @ build_file_id @ ''294A0000000000001 /* '' @ file @
     '' in Sources */ = {isa = PBXBuildFile; fileRef = '' @ file_ref_id @
     ''294A0000000000001 /* '' @ file @ '' */; };''"

definition file_ref_entry :: "string \<Rightarrow> string \<Rightarrow> string" where
  "file_ref_entry file_ref_id file =
     TAB2 @ file_ref_id @ ''294A0000000000001 /* '' @ file @
     '' */ = {isa = PBXFileReference; lastKnownFileType = sourcecode.swift; path = '' @ file @
     ''; sourceTree = \"<group>\"; };''"

definition sources_entry :: "string \<Rightarrow> string \<Rightarrow> string" where
  "sources_entry build_file_id file =
     TAB3 @ build_file_id @ ''294A0000000000001 /* '' @ file @ '' in Sources */,''"

definition group_entry :: "string \<Rightarrow> string \<Rightarrow> string" where
  "group_entry file_ref_id file =
     TAB3 @ file_ref_id @ ''294A0000000000001 /* '' @ file @ '' */,''"

text \<open>
  The loop over \<open>missing_files\<close>: two identifiers are drawn for each file, and one entry
  is appended to each of the four lists.
\<close>

record additions =
  build_file_additions :: "string list"
  file_reference_additions :: "string list"
  sources_build_phase_additions :: "string list"
  group_additions :: "string list"

fun make_additions :: "string list \<Rightarrow> additions \<Rightarrow> world \<Rightarrow> additions \<times> world" where
  "make_additions [] acc w = (acc, w)"
| "make_additions (file # rest) acc w =
     (case generate_uuid w of (file_ref_id, w1) \<Rightarrow>
        (case generate_uuid w1 of (build_file_id, w2) \<Rightarrow>
           make_additions rest
             (acc\<lparr>build_file_additions :=
                     build_file_additions acc @ [build_file_entry build_file_id file_ref_id file],
                   file_reference_additions :=
                     file_reference_additions acc @ [file_ref_entry file_ref_id file],
                   sources_build_phase_additions :=
                     sources_build_phase_additions acc @ [sources_entry build_file_id file],
                   group_additions := group_additions acc @ [group_entry file_ref_id file]\<rparr>)
             w2))"

text \<open>\<open>lines.insert(i, x)\<close>: an index past the end appends.\<close>

definition insert_at :: "nat \<Rightarrow> 'a \<Rightarrow> 'a list \<Rightarrow> 'a list" where
  "insert_at i x xs = take i xs @ x # drop i xs"

text \<open>\<open>for entry in reversed(entries): lines.insert(i, entry)\<close>\<close>

definition insert_reversed :: "nat \<Rightarrow> string list \<Rightarrow> string list \<Rightarrow> string list" where
  "insert_reversed i entries lines = foldl (\<lambda>ls entry. insert_at i entry ls) lines (rev entries)"

text \<open>
  \<open>for i in range(start, len(lines)): if cond(i): start = ...; break\<close> leaves the first
  index at which the condition holds, if there is one.
\<close>

definition first_index :: "(nat \<Rightarrow> bool) \<Rightarrow> nat \<Rightarrow> nat \<Rightarrow> nat option" where
  "first_index cond start stop = find cond [start..<stop]"

definition find_sources_insert :: "string list \<Rightarrow> nat \<Rightarrow> nat" where
  "find_sources_insert lines sources_insert =
     (case first_index
             (\<lambda>i. if i + 1 < length lines
                  then strip (lines ! i) = '');'' \<and>
                       contains (lines ! (i + 1)) ''runOnlyForDeploymentPostprocessing''
                  else False)
             sources_insert (length lines) of
        None \<Rightarrow> sources_insert
      | Some i \<Rightarrow> i)"

definition find_group_insert :: "string list \<Rightarrow> nat \<Rightarrow> nat" where
  "find_group_insert lines group_insert =
     (let g1 = (case first_index (\<lambda>i. strip (lines ! i) = ''children = ('')
                       group_insert (length lines) of
                  None \<Rightarrow> group_insert
                | Some i \<Rightarrow> i + 1)
      in case first_index (\<lambda>i. strip (lines ! i) = '');'') g1 (length lines) of
           None \<Rightarrow> g1
         | Some i \<Rightarrow> i)"

text \<open>The insertion of the four lists into the lines of the descriptor.\<close>

definition insert_additions ::
  "string \<Rightarrow> rematch \<Rightarrow> rematch \<Rightarrow> rematch \<Rightarrow> rematch \<Rightarrow> additions \<Rightarrow> string" where
  "insert_additions content pbx_build_file_section pbx_file_reference_section
      pbx_sources_build_phase dual_camera_app_group adds =
     (let lines0 = split_nl content;
          build_file_insert =
            m_end pbx_build_file_section + length (''/* Begin PBXBuildFile section */'' @ NL);
          lines1 = insert_reversed build_file_insert (build_file_additions adds) lines0;
          file_ref_insert =
            m_end pbx_file_reference_section + length (''/* Begin PBXFileReference section */'' @ NL);
          lines2 = insert_reversed file_ref_insert (file_reference_additions adds) lines1;
          sources_insert =
            find_sources_insert lines2
              (m_end pbx_sources_build_phase +
               length (''/* Begin PBXSourcesBuildPhase section */'' @ NL));
          lines3 = insert_reversed sources_insert (sources_build_phase_additions adds) lines2;
          group_insert = find_group_insert lines3 (m_end dual_camera_app_group);
          lines4 = insert_reversed group_insert (group_additions adds) lines3
      in join NL lines4)"

definition no_additions :: additions where
  "no_additions = \<lparr>build_file_additions = [], file_reference_additions = [],
                    sources_build_phase_additions = [], group_additions = []\<rparr>"

definition update_project_file :: "world \<Rightarrow> run" where
  "update_project_file w =
     (case files w project_file of
        None \<Rightarrow> (Some FileNotFoundError, w)
      | Some content \<Rightarrow>
          (case get_missing_swift_files w of
             Inl e \<Rightarrow> (Some e, w)
           | Inr missing_files \<Rightarrow>
               if missing_files = [] then (None, print ''No missing files found!'' w)
               else
                 (let w1 = print (''Adding '' @ show_nat (length missing_files) @
                                  '' missing Swift files to project...'') w
                  in case (re_search (lit ''/* Begin PBXBuildFile section */'') content,
                           re_search (lit ''/* Begin PBXFileReference section */'') content,
                           re_search (lit ''/* Begin PBXSourcesBuildPhase section */'') content,
                           re_search (lit ''A1000018294A0000000000001 /* DualCameraApp */ = {'') content) of
                       (Some pbx_build_file_section, Some pbx_file_reference_section,
                        Some pbx_sources_build_phase, Some dual_camera_app_group) \<Rightarrow>
                         (case make_additions missing_files no_additions w1 of (adds, w2) \<Rightarrow>
                            (let updated_content =
                                   insert_additions content pbx_build_file_section
                                     pbx_file_reference_section pbx_sources_build_phase
                                     dual_camera_app_group adds;
                                 w3 = write_file project_file updated_content w2
                             in (None,
                                 prints
                                   ((''Successfully added '' @ show_nat (length missing_files) @
                                     '' Swift files to the project!'') #
                                    map (\<lambda>file. ''  + '' @ file) missing_files)
                                   w3)))
                     | _ \<Rightarrow>
                         (None, print ''Could not find required sections in project file!'' w1))))"

definition fix_xcode_project_main :: "world \<Rightarrow> run" where
  "fix_xcode_project_main w =
     (case update_project_file (print ''Fixing Xcode project to include all Swift files...'' w) of
        (Some e, w1) \<Rightarrow> (Some e, w1)
      | (None, w1) \<Rightarrow> (None, print (NL @ ''Project file updated successfully!'') w1))"

section \<open>comprehensive_fix.py\<close>









section \<open>fix_project.py\<close>

definition files_to_add :: "string list" where
  "files_to_add =
     [''ZoomControl.swift'', ''FlashControl.swift'', ''TimerControl.swift'',
      ''FocusExposureControl.swift'']"

text \<open>\<open>str.upper\<close>, which the scripts apply to hexadecimal digits only.\<close>

definition ascii_upper :: "char \<Rightarrow> char" where
  "ascii_upper c =
     (let n = (of_char c :: nat) in if 97 \<le> n \<and> n \<le> 122 then char_of (n - 32) else c)"

















section \<open>uuid.uuid4\<close>

text \<open>
  \<open>uuid.uuid4().hex[:24].upper()\<close>: sixteen random bytes, the version and variant bits
  set, printed as hexadecimal digits; the scripts keep the first 24 digits, in upper case.
\<close>

definition hex_digit :: "nat \<Rightarrow> char" where
  "hex_digit d = ''0123456789abcdef'' ! (d mod 16)"

definition hex_byte :: "nat \<Rightarrow> string" where
  "hex_byte b = [hex_digit (b div 16), hex_digit b]"

definition uuid4_bytes :: "world \<Rightarrow> nat list" where
  "uuid4_bytes w =
     (let bytes = map (\<lambda>i. random w (drawn w + i) mod 256) [0..<16]
      in bytes[6 := bytes ! 6 mod 16 + 64, 8 := bytes ! 8 mod 64 + 128])"

definition uuid4_hex :: "world \<Rightarrow> string \<times> world" where
  "uuid4_hex w = (concat (map hex_byte (uuid4_bytes w)), w\<lparr>drawn := drawn w + 16\<rparr>)"

definition uuid4_id :: "world \<Rightarrow> string \<times> world" where
  "uuid4_id w = (case uuid4_hex w of (h, w1) \<Rightarrow> (map ascii_upper (take 24 h), w1))"

text \<open>
  A replacement template given to \<open>re.sub\<close> as a string is searched for backslash escapes.
  The model follows the escapes the scripts write themselves; a backslash in text taken
  from the descriptor ends the run in \<open>TemplateEscape\<close>.
\<close>

definition plain_template :: "string \<Rightarrow> bool" where
  "plain_template t = (CHR 0x5C \<notin> set t)"

section \<open>Z/add_files_to_xcode.py\<close>

definition pbxproj_path :: string where
  "pbxproj_path = ''/Users/letsmakemillions/Desktop/APp/Z/DualApp.xcodeproj/project.pbxproj''"

definition base_path :: string where
  "base_path = ''/Users/letsmakemillions/Desktop/APp/Z/DualApp''"

definition folders_to_add :: "string list" where
  "folders_to_add = [''Core'', ''App'', ''VideoProcessing'', ''Features'']"

definition collect_files :: "world \<Rightarrow> string list" where
  "collect_files w =
     concat (map (\<lambda>folder.
        (let folder_path = base_path @ ''/'' @ folder
         in if path_exists w folder_path
            then glob_result w (folder_path @ ''/**/*.swift'') @
                 glob_result w (folder_path @ ''/**/*.metal'')
            else [])) folders_to_add)"

record file_ref =
  fr_id :: string
  fr_path :: string
  fr_name :: string

record build_file =
  bf_id :: string
  bf_file_ref_id :: string
  bf_name :: string

fun make_file_records ::
  "string list \<Rightarrow> world \<Rightarrow> (file_ref list \<times> build_file list) \<times> world" where
  "make_file_records [] w = (([], []), w)"
| "make_file_records (file_path # rest) w =
     (let rel_path = replace_py (base_path @ ''/'') [] file_path;
          filename = basename file_path
      in case uuid4_id w of (file_ref_id, w1) \<Rightarrow>
           (case uuid4_id w1 of (build_file_id, w2) \<Rightarrow>
              (case make_file_records rest w2 of ((frs, bfs), w3) \<Rightarrow>
                 ((\<lparr>fr_id = file_ref_id, fr_path = rel_path, fr_name = filename\<rparr> # frs,
                   \<lparr>bf_id = build_file_id, bf_file_ref_id = file_ref_id, bf_name = filename\<rparr> # bfs),
                  w3))))"

definition frameworks :: "string list" where
  "frameworks =
     [''AVFoundation.framework'', ''CoreImage.framework'', ''Metal.framework'',
      ''MetalKit.framework'', ''Photos.framework'', ''PhotosUI.framework'',
      ''Combine.framework'', ''SwiftUI.framework'']"

fun make_framework_records ::
  "string list \<Rightarrow> world \<Rightarrow> (file_ref list \<times> build_file list) \<times> world" where
  "make_framework_records [] w = (([], []), w)"
| "make_framework_records (fw # rest) w =
     (case uuid4_id w of (fw_ref_id, w1) \<Rightarrow>
        (case uuid4_id w1 of (fw_build_id, w2) \<Rightarrow>
           (case make_framework_records rest w2 of ((frs, bfs), w3) \<Rightarrow>
              ((\<lparr>fr_id = fw_ref_id, fr_path = [], fr_name = fw\<rparr> # frs,
                \<lparr>bf_id = fw_build_id, bf_file_ref_id = fw_ref_id, bf_name = fw\<rparr> # bfs),
               w3))))"

definition pbxbuildfile_section :: string where
  "pbxbuildfile_section = ''/* End PBXBuildFile section */''"

definition pbxfilereference_section :: string where
  "pbxfilereference_section = ''/* End PBXFileReference section */''"

definition new_build_entry :: "build_file \<Rightarrow> string" where
  "new_build_entry bf =
     TAB2 @ bf_id bf @ '' /* '' @ bf_name bf @ '' in Sources */ = {isa = PBXBuildFile; fileRef = '' @
     bf_file_ref_id bf @ '' /* '' @ bf_name bf @ '' */; };'' @ NL"

definition new_file_ref_entry :: "file_ref \<Rightarrow> string" where
  "new_file_ref_entry fr =
     TAB2 @ fr_id fr @ '' /* '' @ fr_name fr @ '' */ = {isa = PBXFileReference; lastKnownFileType = '' @
     (if suffix ''.swift'' (fr_name fr) then ''sourcecode.swift'' else ''sourcecode.metal'') @
     ''; path = '' @ fr_path fr @ ''; sourceTree = \"<group>\"; };'' @ NL"

definition new_source_entry :: "build_file \<Rightarrow> string" where
  "new_source_entry bf = TAB4 @ bf_id bf @ '' /* '' @ bf_name bf @ '' in Sources */,'' @ NL"

definition new_fw_ref :: "file_ref \<Rightarrow> string" where
  "new_fw_ref fwr =
     TAB2 @ fr_id fwr @ '' /* '' @ fr_name fwr @
     '' */ = {isa = PBXFileReference; lastKnownFileType = wrapper.framework; name = '' @
     fr_name fwr @ ''; path = System/Library/Frameworks/'' @ fr_name fwr @
     ''; sourceTree = SDKROOT; };'' @ NL"

definition new_fw_build :: "build_file \<Rightarrow> string" where
  "new_fw_build fwb =
     TAB2 @ bf_id fwb @ '' /* '' @ bf_name fwb @ '' in Frameworks */ = {isa = PBXBuildFile; fileRef = '' @
     bf_file_ref_id fwb @ '' /* '' @ bf_name fwb @ '' */; };'' @ NL"

definition new_fw_entry :: "build_file \<Rightarrow> string" where
  "new_fw_entry fwb = TAB4 @ bf_id fwb @ '' /* '' @ bf_name fwb @ '' in Frameworks */,'' @ NL"

text \<open>\<^verbatim>\<open>(/\* Begin PBXSourcesBuildPhase section \*/.*?files = \()(.*?)(\);\s+runOnlyForDeploymentPostprocessing)\<close>\<close>

definition sources_pattern :: "atom list" where
  "sources_pattern =
     [GOpen 1] @ lit ''/* Begin PBXSourcesBuildPhase section */'' @ [lazy_star DotAll] @
     lit ''files = ('' @ [GClose 1, GOpen 2, lazy_star DotAll, GClose 2, GOpen 3] @ lit '');'' @
     [plus Space] @ lit ''runOnlyForDeploymentPostprocessing'' @ [GClose 3]"

text \<open>\<^verbatim>\<open>(A1000000294A0000000000000 /\* Frameworks \*/ = \{.*?files = \()(.*?)(\);)\<close>\<close>

definition frameworks_pattern :: "atom list" where
  "frameworks_pattern =
     [GOpen 1] @ lit ''A1000000294A0000000000000 /* Frameworks */ = {'' @ [lazy_star DotAll] @
     lit ''files = ('' @ [GClose 1, GOpen 2, lazy_star DotAll, GClose 2, GOpen 3] @ lit '');'' @
     [GClose 3]"

text \<open>The Sources build phase: the new entries follow the existing ones.\<close>

definition add_to_sources_phase :: "build_file list \<Rightarrow> string \<Rightarrow> py_exc + string" where
  "add_to_sources_phase build_files content =
     (case re_search sources_pattern content of
        None \<Rightarrow> Inr content
      | Some match \<Rightarrow>
          (let before = group content match 1;
               existing = group content match 2;
               after = group content match 3;
               new_sources = before @ existing @ concat (map new_source_entry build_files) @ after
           in if plain_template new_sources
              then Inr (re_sub sources_pattern (\<lambda>m. new_sources) content)
              else Inl TemplateEscape))"

text \<open>The Frameworks build phase: the new entries precede the existing ones.\<close>

definition add_to_frameworks_phase :: "build_file list \<Rightarrow> string \<Rightarrow> py_exc + string" where
  "add_to_frameworks_phase framework_builds content =
     (case re_search frameworks_pattern content of
        None \<Rightarrow> Inr content
      | Some fw_match \<Rightarrow>
          (let before = group content fw_match 1;
               existing = group content fw_match 2;
               after = group content fw_match 3;
               new_frameworks =
                 before @ concat (map new_fw_entry framework_builds) @ existing @ after
           in if plain_template new_frameworks
              then Inr (re_sub frameworks_pattern (\<lambda>m. new_frameworks) content)
              else Inl TemplateEscape))"

definition add_files_text ::
  "file_ref list \<Rightarrow> build_file list \<Rightarrow> file_ref list \<Rightarrow> build_file list \<Rightarrow> string \<Rightarrow>
   py_exc + string" where
  "add_files_text file_refs build_files framework_refs framework_builds content =
     (let content1 = replace_py pbxbuildfile_section
                       (concat (map new_build_entry build_files) @ pbxbuildfile_section) content;
          content2 = replace_py pbxfilereference_section
                       (concat (map new_file_ref_entry file_refs) @ pbxfilereference_section)
                       content1
      in case add_to_sources_phase build_files content2 of
           Inl e \<Rightarrow> Inl e
         | Inr content3 \<Rightarrow>
             (let content4 = replace_py pbxfilereference_section
                               (concat (map new_fw_ref framework_refs) @ pbxfilereference_section)
                               content3;
                  content5 = replace_py pbxbuildfile_section
                               (concat (map new_fw_build framework_builds) @ pbxbuildfile_section)
                               content4
              in add_to_frameworks_phase framework_builds content5))"

definition check_mark :: string where
  "check_mark = [CHR 0xE2, CHR 0x9C, CHR 0x85]"

definition add_files_to_xcode :: "world \<Rightarrow> run" where
  "add_files_to_xcode w =
     (case files w pbxproj_path of
        None \<Rightarrow> (Some FileNotFoundError, w)
      | Some content \<Rightarrow>
          (let files_to_add = collect_files w
           in case make_file_records files_to_add w of ((file_refs, build_files), w1) \<Rightarrow>
                (case make_framework_records frameworks w1 of
                   ((framework_refs, framework_builds), w2) \<Rightarrow>
                     (case add_files_text file_refs build_files framework_refs framework_builds
                             content of
                        Inl e \<Rightarrow> (Some e, w2)
                      | Inr new_content \<Rightarrow>
                          (None,
                           prints
                             ([check_mark @ '' Added '' @ show_nat (length files_to_add) @
                               '' source files to Xcode project'',
                               check_mark @ '' Added '' @ show_nat (length frameworks) @
                               '' frameworks to Xcode project'',
                               NL @ ''Files added:''] @
                              map (\<lambda>f. ''  - '' @ basename f) (take 10 files_to_add) @
                              (if 10 < length files_to_add
                               then [''  ... and '' @ show_nat (length files_to_add - 10) @ '' more'']
                               else []) @
                              [NL @ ''Frameworks added:''] @
                              map (\<lambda>fw. ''  - '' @ fw) frameworks)
                             (write_file pbxproj_path new_content w2))))))"

section \<open>add_swift_files.py\<close>

text \<open>\<^verbatim>\<open>(/\* Begin PBXFileReference section \*/.*?/\* End PBXFileReference section \*/)\<close>,
  and the same for PBXBuildFile.\<close>

definition whole_section_pattern :: "string \<Rightarrow> atom list" where
  "whole_section_pattern kind =
     [GOpen 1] @ lit (''/* Begin '' @ kind @ '' section */'') @ [lazy_star DotAll] @
     lit (''/* End '' @ kind @ '' section */'') @ [GClose 1]"

text \<open>\<^verbatim>\<open>(/\* Sources \*/.*?isa = PBXSourcesBuildPhase;.*?files = \((.*?)\);)\<close>\<close>

definition sources_build_phase_pattern :: "atom list" where
  "sources_build_phase_pattern =
     [GOpen 1] @ lit ''/* Sources */'' @ [lazy_star DotAll] @ lit ''isa = PBXSourcesBuildPhase;'' @
     [lazy_star DotAll] @ lit ''files = ('' @ [GOpen 2, lazy_star DotAll, GClose 2] @ lit '');'' @
     [GClose 1]"

text \<open>\<^verbatim>\<open>(A2[0-9A-F]+ /\* DualCameraApp \*/ = \{.*?children = \((.*?)\);.*?name = DualCameraApp;)\<close>\<close>

definition group_section_pattern :: "atom list" where
  "group_section_pattern =
     [GOpen 1] @ lit ''A2'' @ [plus UHex] @ lit '' /* DualCameraApp */ = {'' @ [lazy_star DotAll] @
     lit ''children = ('' @ [GOpen 2, lazy_star DotAll, GClose 2] @ lit '');'' @
     [lazy_star DotAll] @ lit ''name = DualCameraApp;'' @ [GClose 1]"

text \<open>\<^verbatim>\<open>(/\* Sources \*/.*?files = \().*?(\);)\<close>\<close>

definition sources_sub_pattern :: "atom list" where
  "sources_sub_pattern =
     [GOpen 1] @ lit ''/* Sources */'' @ [lazy_star DotAll] @ lit ''files = ('' @
     [GClose 1, lazy_star DotAll, GOpen 2] @ lit '');'' @ [GClose 2]"

text \<open>
  The loop over \<open>files_to_add\<close>: for every file two fresh identifiers and the two record
  lines. The descriptor is not consulted.
\<close>

definition swift_file_ref :: "string \<Rightarrow> string \<Rightarrow> string" where
  "swift_file_ref file_ref_id filename =
     TAB2 @ file_ref_id @ '' /* '' @ filename @
     '' */ = {isa = PBXFileReference; lastKnownFileType = sourcecode.swift; path = '' @ filename @
     ''; sourceTree = \"<group>\"; };'' @ NL"

definition swift_build_file :: "string \<Rightarrow> string \<Rightarrow> string \<Rightarrow> string" where
  "swift_build_file build_file_id file_ref_id filename =
     TAB2 @ build_file_id @ '' /* '' @ filename @ '' in Sources */ = {isa = PBXBuildFile; fileRef = '' @
     file_ref_id @ '' /* '' @ filename @ '' */; };'' @ NL"

fun create_records ::
  "string list \<Rightarrow> world \<Rightarrow> ((string \<times> string) list \<times> (string \<times> string) list) \<times> world" where
  "create_records [] w = (([], []), w)"
| "create_records (filename # rest) w =
     (case uuid4_id w of (file_ref_id, w1) \<Rightarrow>
        (case uuid4_id w1 of (build_file_id, w2) \<Rightarrow>
           (case create_records rest w2 of ((new_file_refs, new_build_files), w3) \<Rightarrow>
              (((file_ref_id, swift_file_ref file_ref_id filename) # new_file_refs,
                (build_file_id, swift_build_file build_file_id file_ref_id filename) #
                new_build_files),
               w3))))"

definition add_swift_files_text ::
  "(string \<times> string) list \<Rightarrow> (string \<times> string) list \<Rightarrow> string \<Rightarrow> py_exc + string" where
  "add_swift_files_text new_file_refs new_build_files content =
     (case re_search (whole_section_pattern ''PBXFileReference'') content of
        None \<Rightarrow> Inl AttributeError
      | Some file_ref_section \<Rightarrow>
          (let file_ref_insert =
                 replace_py ''/* End PBXFileReference section */''
                   (concat (map snd new_file_refs) @ ''/* End PBXFileReference section */'')
                   (group content file_ref_section 1);
               content1 = replace_py (group content file_ref_section 1) file_ref_insert content
           in case re_search (whole_section_pattern ''PBXBuildFile'') content of
                None \<Rightarrow> Inl AttributeError
              | Some build_file_section \<Rightarrow>
                  (let build_file_insert =
                         replace_py ''/* End PBXBuildFile section */''
                           (concat (map snd new_build_files) @ ''/* End PBXBuildFile section */'')
                           (group content build_file_section 1);
                       content2 = replace_py (group content build_file_section 1)
                                    build_file_insert content1
                   in case re_search sources_build_phase_pattern content of
                        None \<Rightarrow> Inl AttributeError
                      | Some sources_build_phase \<Rightarrow>
                          (let source_files = strip (group content sources_build_phase 2);
                               new_build_file_refs =
                                 join NL (map (\<lambda>(b, filename).
                                           TAB4 @ fst b @ '' /* '' @ filename @ '' in Sources */,'')
                                         (zip new_build_files files_to_add));
                               new_source_files = source_files @ NL @ new_build_file_refs
                           in if \<not> plain_template new_source_files then Inl TemplateEscape
                              else
                                (let content3 =
                                       re_sub_once sources_sub_pattern
                                         (\<lambda>m. group content2 m 1 @ NL @ new_source_files @ NL @
                                              TAB3 @ group content2 m 2)
                                         content2
                                 in case re_search group_section_pattern content of
                                      None \<Rightarrow> Inr content3
                                    | Some group_section \<Rightarrow>
                                        (let children = strip (group content group_section 2);
                                             new_children_refs =
                                               join NL (map (\<lambda>(r, filename).
                                                         TAB4 @ fst r @ '' /* '' @ filename @ '' */,'')
                                                       (zip new_file_refs files_to_add));
                                             new_children = children @ NL @ new_children_refs;
                                             old_group = group content group_section 1;
                                             new_group =
                                               replace_py
                                                 (''children = ('' @ group content group_section 2 @ '');'')
                                                 (''children = ('' @ NL @ new_children @ NL @ TAB3 @ '');'')
                                                 old_group
                                         in Inr (replace_py old_group new_group content3)))))))"

definition add_swift_files :: "world \<Rightarrow> run" where
  "add_swift_files w =
     (case files w project_file of
        None \<Rightarrow> (Some FileNotFoundError, w)
      | Some content \<Rightarrow>
          (case create_records files_to_add w of ((new_file_refs, new_build_files), w1) \<Rightarrow>
             (case add_swift_files_text new_file_refs new_build_files content of
                Inl e \<Rightarrow> (Some e, w1)
              | Inr new_content \<Rightarrow>
                  (None,
                   prints
                     ((check_mark @ '' Successfully added '' @ show_nat (length files_to_add) @
                       '' files to Xcode project!'') #
                      map (\<lambda>f. ''  - '' @ f) files_to_add)
                     (write_file project_file new_content w1)))))"


section \<open>Reading a descriptor\<close>

text \<open>
  The claims speak of records, identifiers, phase members and group children. In the
  descriptor a record line is \<^verbatim>\<open><Identifier> /* <name> */ = {isa = <Kind>; ...};\<close>, a phase
  member is a line \<^verbatim>\<open><Identifier> /* <name> in Sources */,\<close> and the children of a group are
  the lines between \<^verbatim>\<open>children = (\<close> and \<^verbatim>\<open>);\<close>. The identifier is the first word of
  the line.
\<close>

definition entry_id :: "string \<Rightarrow> string" where
  "entry_id line = takeWhile (\<lambda>c. c \<noteq> CHR '' '') (dropWhile py_isspace line)"




definition is_frameworks_member :: "string \<Rightarrow> bool" where
  "is_frameworks_member line = suffix '' in Frameworks */,'' line"





definition frameworks_member_ids :: "string \<Rightarrow> string list" where
  "frameworks_member_ids content = map entry_id (filter is_frameworks_member (split_nl content))"


text \<open>The text that follows the first occurrence of a key, and the \<open>path\<close> of a record line.\<close>

fun after :: "string \<Rightarrow> string \<Rightarrow> string option" where
  "after key [] = (if key = [] then Some [] else None)"
| "after key (c # cs) =
     (if prefix key (c # cs) then Some (drop (length key) (c # cs)) else after key cs)"











section \<open>Failing lookups\<close>



text \<open>The identifiers of all record lines of a descriptor.\<close>

definition is_record_line :: "string \<Rightarrow> bool" where
  "is_record_line line = contains line '' */ = {''"

definition record_ids :: "string \<Rightarrow> string list" where
  "record_ids content = map entry_id (filter is_record_line (split_nl content))"


section \<open>Concrete descriptors and worlds\<close>

text \<open>A descriptor that opens the PBXFileReference section and never closes it.\<close>

definition unclosed_section :: string where
  "unclosed_section = ''/* Begin PBXFileReference section */'' @ NL"

definition world_with :: "string \<Rightarrow> string list \<Rightarrow> (nat \<Rightarrow> nat) \<Rightarrow> world" where
  "world_with content swift_files rnd =
     \<lparr>files = (\<lambda>p. if p = project_file then Some content else None),
      glob_result = (\<lambda>pat. if pat = ''DualCameraApp/*.swift'' then swift_files else []),
      path_exists = (\<lambda>p. False), stdout = [], random = rnd, drawn = 0\<rparr>"

text \<open>
  A descriptor with the four places \<open>update_project_file\<close> looks for, and one file
  reference: its path is \<open>Foo.swift\<close>, its display name \<open>Alias.swift\<close>.
\<close>

definition alias_descriptor :: string where
  "alias_descriptor =
     ''/* Begin PBXBuildFile section */'' @ NL @
     ''/* Begin PBXFileReference section */'' @ NL @
     TAB2 @ ''A1 /* Alias.swift */ = {isa = PBXFileReference; path = Foo.swift; };'' @ NL @
     ''/* Begin PBXSourcesBuildPhase section */'' @ NL @
     TAB2 @ ''A1000018294A0000000000001 /* DualCameraApp */ = {'' @ NL"

text \<open>A world with that descriptor, the file \<open>Foo.swift\<close> in the directory, and a random
  source that repeats itself after 24 draws.\<close>

definition alias_world :: world where
  "alias_world = world_with alias_descriptor [''DualCameraApp/Foo.swift''] (\<lambda>i. i mod 24)"

definition alias_descriptor_updated :: string where
  "alias_descriptor_updated =
     alias_descriptor @ NL @
     TAB2 @ ''0123456789ABCDEF01234567294A0000000000001 /* Foo.swift in Sources */ = {isa = PBXBuildFile; fileRef = 0123456789ABCDEF01234567294A0000000000001 /* Foo.swift */; };'' @ NL @
     TAB2 @ ''0123456789ABCDEF01234567294A0000000000001 /* Foo.swift */ = {isa = PBXFileReference; lastKnownFileType = sourcecode.swift; path = Foo.swift; sourceTree = \"<group>\"; };'' @ NL @
     TAB3 @ ''0123456789ABCDEF01234567294A0000000000001 /* Foo.swift in Sources */,'' @ NL @
     TAB3 @ ''0123456789ABCDEF01234567294A0000000000001 /* Foo.swift */,''"

definition alias_additions :: additions where
  "alias_additions =
     \<lparr>build_file_additions =
        [TAB2 @ ''0123456789ABCDEF01234567294A0000000000001 /* Foo.swift in Sources */ = {isa = PBXBuildFile; fileRef = 0123456789ABCDEF01234567294A0000000000001 /* Foo.swift */; };''],
      file_reference_additions =
        [TAB2 @ ''0123456789ABCDEF01234567294A0000000000001 /* Foo.swift */ = {isa = PBXFileReference; lastKnownFileType = sourcecode.swift; path = Foo.swift; sourceTree = \"<group>\"; };''],
      sources_build_phase_additions =
        [TAB3 @ ''0123456789ABCDEF01234567294A0000000000001 /* Foo.swift in Sources */,''],
      group_additions = [TAB3 @ ''0123456789ABCDEF01234567294A0000000000001 /* Foo.swift */,'']\<rparr>"







section \<open>Properties\<close>

subsection \<open>Printing and writing\<close>

lemma files_print [simp]: "files (print l w) = files w"
  by (simp add: print_def)

lemma files_prints [simp]: "files (prints ls w) = files w"
  by (induction ls arbitrary: w) simp_all

lemma glob_print [simp]: "glob_result (print l w) = glob_result w"
  by (simp add: print_def)

lemma glob_prints [simp]: "glob_result (prints ls w) = glob_result w"
  by (induction ls arbitrary: w) simp_all

lemma drawn_print [simp]: "drawn (print l w) = drawn w"
  by (simp add: print_def)

lemma drawn_prints [simp]: "drawn (prints ls w) = drawn w"
  by (induction ls arbitrary: w) simp_all

lemma random_print [simp]: "random (print l w) = random w"
  by (simp add: print_def)

lemma random_prints [simp]: "random (prints ls w) = random w"
  by (induction ls arbitrary: w) simp_all

lemma stdout_print [simp]: "stdout (print l w) = stdout w @ [l]"
  by (simp add: print_def)

lemma stdout_prints [simp]: "stdout (prints ls w) = stdout w @ ls"
  by (induction ls arbitrary: w) simp_all

subsection \<open>Lines\<close>

lemma split_nl_not_Nil [simp]: "split_nl s \<noteq> []"
  by (induction s) (auto split: list.splits)

lemma join_Cons: "ls \<noteq> [] \<Longrightarrow> join sep (l # ls) = l @ sep @ join sep ls"
  by (cases ls) simp_all

lemma join_split_nl: "join NL (split_nl s) = s"
proof (induction s)
  case Nil
  show ?case by simp
next
  case (Cons c s)
  show ?case
  proof (cases "c = CHR 0x0A")
    case True
    then show ?thesis using Cons by (simp add: join_Cons)
  next
    case False
    obtain l ls where sp: "split_nl s = l # ls"
      by (cases "split_nl s") auto
    then have "join NL (l # ls) = s"
      using Cons by simp
    then have "join NL ((c # l) # ls) = c # s"
      by (cases ls) auto
    then show ?thesis using False sp by simp
  qed
qed

lemma insert_additions_none: "insert_additions content m1 m2 m3 m4 no_additions = content"
  by (simp add: insert_additions_def no_additions_def insert_reversed_def Let_def join_split_nl)

subsection \<open>update_project.py only reports\<close>

text \<open>
  C10. update_project.py never modifies the descriptor: whatever the world, the run leaves
  every file as it was (and the directory listing too); its only effect is the report
  appended to the output.
\<close>

theorem update_project_only_reports:
  "files (snd (update_project_main w)) = files w \<and>
   glob_result (snd (update_project_main w)) = glob_result w \<and>
   prefix (stdout w) (stdout (snd (update_project_main w)))"
  unfolding update_project_main_def Let_def
  by (cases "get_swift_files_in_project
               (print ''Checking for missing Swift files in Xcode project...'' w)")
     simp_all

subsection \<open>Untouched text is stable\<close>

text \<open>
  C4. Round trip. \<open>update_project_file\<close> takes the descriptor apart into lines and joins
  them again; with no entry to insert the joined text is the text that was read, byte for
  byte. When no file is missing the run does not even write: it ends normally and every
  file is as before.
\<close>

theorem untouched_text_is_stable:
  "insert_additions content m1 m2 m3 m4 no_additions = content \<and>
   (get_missing_swift_files w = Inr [] \<longrightarrow>
      fst (update_project_file w) = None \<and> files (snd (update_project_file w)) = files w)"
  by (auto simp: insert_additions_none update_project_file_def get_missing_swift_files_def Let_def
           split: option.splits)

theorem untouched_text_is_stable_witness:
  "get_missing_swift_files (world_with unclosed_section [] (\<lambda>i. 0)) = Inr [] \<and>
   fst (update_project_file (world_with unclosed_section [] (\<lambda>i. 0))) = None \<and>
   files (snd (update_project_file (world_with unclosed_section [] (\<lambda>i. 0)))) =
     files (world_with unclosed_section [] (\<lambda>i. 0))"
proof -
  have h: "get_missing_swift_files (world_with unclosed_section [] (\<lambda>i. 0)) = Inr []"
    by (simp add: get_missing_swift_files_def world_with_def Let_def)
  show ?thesis
    using h untouched_text_is_stable [of unclosed_section "(0, 0, [])" "(0, 0, [])" "(0, 0, [])"
        "(0, 0, [])" "world_with unclosed_section [] (\<lambda>i. 0)"]
    by simp
qed

subsection \<open>A failed lookup writes nothing\<close>








subsection \<open>fix_project.py is deterministic\<close>



subsection \<open>Evaluating the matcher\<close>

text \<open>
  The character classes on the characters of the descriptors below, and the equations
  with which a match on a concrete text is computed.
\<close>

lemma py_isspace_table:
  "py_isspace (CHR 0x09) = True"
  "py_isspace (CHR 0x0A) = True"
  "py_isspace (CHR 0x0D) = True"
  "py_isspace (CHR 0x20) = True"
  "py_isspace (CHR 0x21) = False"
  "py_isspace (CHR 0x22) = False"
  "py_isspace (CHR 0x23) = False"
  "py_isspace (CHR 0x24) = False"
  "py_isspace (CHR 0x25) = False"
  "py_isspace (CHR 0x26) = False"
  "py_isspace (CHR 0x27) = False"
  "py_isspace (CHR 0x28) = False"
  "py_isspace (CHR 0x29) = False"
  "py_isspace (CHR 0x2A) = False"
  "py_isspace (CHR 0x2B) = False"
  "py_isspace (CHR 0x2C) = False"
  "py_isspace (CHR 0x2D) = False"
  "py_isspace (CHR 0x2E) = False"
  "py_isspace (CHR 0x2F) = False"
  "py_isspace (CHR 0x30) = False"
  "py_isspace (CHR 0x31) = False"
  "py_isspace (CHR 0x32) = False"
  "py_isspace (CHR 0x33) = False"
  "py_isspace (CHR 0x34) = False"
  "py_isspace (CHR 0x35) = False"
  "py_isspace (CHR 0x36) = False"
  "py_isspace (CHR 0x37) = False"
  "py_isspace (CHR 0x38) = False"
  "py_isspace (CHR 0x39) = False"
  "py_isspace (CHR 0x3A) = False"
  "py_isspace (CHR 0x3B) = False"
  "py_isspace (CHR 0x3C) = False"
  "py_isspace (CHR 0x3D) = False"
  "py_isspace (CHR 0x3E) = False"
  "py_isspace (CHR 0x3F) = False"
  "py_isspace (CHR 0x40) = False"
  "py_isspace (CHR 0x41) = False"
  "py_isspace (CHR 0x42) = False"
  "py_isspace (CHR 0x43) = False"
  "py_isspace (CHR 0x44) = False"
  "py_isspace (CHR 0x45) = False"
  "py_isspace (CHR 0x46) = False"
  "py_isspace (CHR 0x47) = False"
  "py_isspace (CHR 0x48) = False"
  "py_isspace (CHR 0x49) = False"
  "py_isspace (CHR 0x4A) = False"
  "py_isspace (CHR 0x4B) = False"
  "py_isspace (CHR 0x4C) = False"
  "py_isspace (CHR 0x4D) = False"
  "py_isspace (CHR 0x4E) = False"
  "py_isspace (CHR 0x4F) = False"
  "py_isspace (CHR 0x50) = False"
  "py_isspace (CHR 0x51) = False"
  "py_isspace (CHR 0x52) = False"
  "py_isspace (CHR 0x53) = False"
  "py_isspace (CHR 0x54) = False"
  "py_isspace (CHR 0x55) = False"
  "py_isspace (CHR 0x56) = False"
  "py_isspace (CHR 0x57) = False"
  "py_isspace (CHR 0x58) = False"
  "py_isspace (CHR 0x59) = False"
  "py_isspace (CHR 0x5A) = False"
  "py_isspace (CHR 0x5B) = False"
  "py_isspace (CHR 0x5C) = False"
  "py_isspace (CHR 0x5D) = False"
  "py_isspace (CHR 0x5E) = False"
  "py_isspace (CHR 0x5F) = False"
  "py_isspace (CHR 0x60) = False"
  "py_isspace (CHR 0x61) = False"
  "py_isspace (CHR 0x62) = False"
  "py_isspace (CHR 0x63) = False"
  "py_isspace (CHR 0x64) = False"
  "py_isspace (CHR 0x65) = False"
  "py_isspace (CHR 0x66) = False"
  "py_isspace (CHR 0x67) = False"
  "py_isspace (CHR 0x68) = False"
  "py_isspace (CHR 0x69) = False"
  "py_isspace (CHR 0x6A) = False"
  "py_isspace (CHR 0x6B) = False"
  "py_isspace (CHR 0x6C) = False"
  "py_isspace (CHR 0x6D) = False"
  "py_isspace (CHR 0x6E) = False"
  "py_isspace (CHR 0x6F) = False"
  "py_isspace (CHR 0x70) = False"
  "py_isspace (CHR 0x71) = False"
  "py_isspace (CHR 0x72) = False"
  "py_isspace (CHR 0x73) = False"
  "py_isspace (CHR 0x74) = False"
  "py_isspace (CHR 0x75) = False"
  "py_isspace (CHR 0x76) = False"
  "py_isspace (CHR 0x77) = False"
  "py_isspace (CHR 0x78) = False"
  "py_isspace (CHR 0x79) = False"
  "py_isspace (CHR 0x7A) = False"
  "py_isspace (CHR 0x7B) = False"
  "py_isspace (CHR 0x7C) = False"
  "py_isspace (CHR 0x7D) = False"
  "py_isspace (CHR 0x7E) = False"
  by (simp_all add: py_isspace_def)

lemma py_isword_table:
  "py_isword (CHR 0x09) = False"
  "py_isword (CHR 0x0A) = False"
  "py_isword (CHR 0x0D) = False"
  "py_isword (CHR 0x20) = False"
  "py_isword (CHR 0x21) = False"
  "py_isword (CHR 0x22) = False"
  "py_isword (CHR 0x23) = False"
  "py_isword (CHR 0x24) = False"
  "py_isword (CHR 0x25) = False"
  "py_isword (CHR 0x26) = False"
  "py_isword (CHR 0x27) = False"
  "py_isword (CHR 0x28) = False"
  "py_isword (CHR 0x29) = False"
  "py_isword (CHR 0x2A) = False"
  "py_isword (CHR 0x2B) = False"
  "py_isword (CHR 0x2C) = False"
  "py_isword (CHR 0x2D) = False"
  "py_isword (CHR 0x2E) = False"
  "py_isword (CHR 0x2F) = False"
  "py_isword (CHR 0x30) = True"
  "py_isword (CHR 0x31) = True"
  "py_isword (CHR 0x32) = True"
  "py_isword (CHR 0x33) = True"
  "py_isword (CHR 0x34) = True"
  "py_isword (CHR 0x35) = True"
  "py_isword (CHR 0x36) = True"
  "py_isword (CHR 0x37) = True"
  "py_isword (CHR 0x38) = True"
  "py_isword (CHR 0x39) = True"
  "py_isword (CHR 0x3A) = False"
  "py_isword (CHR 0x3B) = False"
  "py_isword (CHR 0x3C) = False"
  "py_isword (CHR 0x3D) = False"
  "py_isword (CHR 0x3E) = False"
  "py_isword (CHR 0x3F) = False"
  "py_isword (CHR 0x40) = False"
  "py_isword (CHR 0x41) = True"
  "py_isword (CHR 0x42) = True"
  "py_isword (CHR 0x43) = True"
  "py_isword (CHR 0x44) = True"
  "py_isword (CHR 0x45) = True"
  "py_isword (CHR 0x46) = True"
  "py_isword (CHR 0x47) = True"
  "py_isword (CHR 0x48) = True"
  "py_isword (CHR 0x49) = True"
  "py_isword (CHR 0x4A) = True"
  "py_isword (CHR 0x4B) = True"
  "py_isword (CHR 0x4C) = True"
  "py_isword (CHR 0x4D) = True"
  "py_isword (CHR 0x4E) = True"
  "py_isword (CHR 0x4F) = True"
  "py_isword (CHR 0x50) = True"
  "py_isword (CHR 0x51) = True"
  "py_isword (CHR 0x52) = True"
  "py_isword (CHR 0x53) = True"
  "py_isword (CHR 0x54) = True"
  "py_isword (CHR 0x55) = True"
  "py_isword (CHR 0x56) = True"
  "py_isword (CHR 0x57) = True"
  "py_isword (CHR 0x58) = True"
  "py_isword (CHR 0x59) = True"
  "py_isword (CHR 0x5A) = True"
  "py_isword (CHR 0x5B) = False"
  "py_isword (CHR 0x5C) = False"
  "py_isword (CHR 0x5D) = False"
  "py_isword (CHR 0x5E) = False"
  "py_isword (CHR 0x5F) = True"
  "py_isword (CHR 0x60) = False"
  "py_isword (CHR 0x61) = True"
  "py_isword (CHR 0x62) = True"
  "py_isword (CHR 0x63) = True"
  "py_isword (CHR 0x64) = True"
  "py_isword (CHR 0x65) = True"
  "py_isword (CHR 0x66) = True"
  "py_isword (CHR 0x67) = True"
  "py_isword (CHR 0x68) = True"
  "py_isword (CHR 0x69) = True"
  "py_isword (CHR 0x6A) = True"
  "py_isword (CHR 0x6B) = True"
  "py_isword (CHR 0x6C) = True"
  "py_isword (CHR 0x6D) = True"
  "py_isword (CHR 0x6E) = True"
  "py_isword (CHR 0x6F) = True"
  "py_isword (CHR 0x70) = True"
  "py_isword (CHR 0x71) = True"
  "py_isword (CHR 0x72) = True"
  "py_isword (CHR 0x73) = True"
  "py_isword (CHR 0x74) = True"
  "py_isword (CHR 0x75) = True"
  "py_isword (CHR 0x76) = True"
  "py_isword (CHR 0x77) = True"
  "py_isword (CHR 0x78) = True"
  "py_isword (CHR 0x79) = True"
  "py_isword (CHR 0x7A) = True"
  "py_isword (CHR 0x7B) = False"
  "py_isword (CHR 0x7C) = False"
  "py_isword (CHR 0x7D) = False"
  "py_isword (CHR 0x7E) = False"
  by (simp_all add: py_isword_def)

lemmas eval_rules =
  re_findall_def re_search_def matches_from.simps search_from.simps rmatch.simps cmatch.simps under.simps
  group_def slice_def m_start_def m_end_def lit_def
  append.simps list.map drop_Suc_Cons drop_0 drop_Nil take_Suc_Cons take_0 take_Nil list.size
  map_of.simps list.case prod.case fst_conv snd_conv option.case option.distinct option.inject
  if_True if_False simp_thms char.inject list.inject list.distinct
  fun_upd_apply gkey.inject gkey.distinct
  numeral_eq_Suc pred_numeral_simps One_nat_def BitM.simps Num.pred_numeral_inc Num.inc.simps
  Suc_less_eq Suc_le_mono le0 not_less0 zero_less_Suc le_0_eq nat.distinct nat.inject less_Suc0
  diff_Suc_Suc minus_nat.diff_0 diff_0_eq_0 max_def add_Suc add_0 add_Suc_right add_0_right
  plus_nat.add_0 Nat.add_0_right
  py_isspace_table py_isword_table


subsection \<open>Identifiers are drawn, not checked\<close>

lemma choices_eq:
  "choices n seq w =
     (map (\<lambda>i. seq ! (random w (drawn w + i) mod length seq)) [0..<n], w\<lparr>drawn := drawn w + n\<rparr>)"
proof (induction n arbitrary: w)
  case 0
  show ?case by simp
next
  case (Suc n)
  have "[0..<Suc n] = 0 # map Suc [0..<n]"
    by (simp add: upt_conv_Cons map_Suc_upt del: upt_Suc)
  then show ?case
    by (simp add: Suc random_choice_def o_def del: upt_Suc)
qed


lemma hex_digits_inj:
  assumes "a < 16" and "b < 16"
  shows "(''0123456789ABCDEF'' ! a = ''0123456789ABCDEF'' ! b) = (a = b)"
proof -
  have "distinct ''0123456789ABCDEF''" by simp
  then show ?thesis
    using assms nth_eq_iff_index_eq [of "''0123456789ABCDEF''" a b] by simp
qed

text \<open>
  C2, as the code has it. \<open>generate_uuid\<close> returns the 24 hexadecimal digits chosen by the
  next 24 draws of the random source and consults nothing else: the descriptor may be
  replaced by any other without changing the identifier, and the files are left as they
  are. Two identifiers are equal exactly when their draws choose the same digit at every
  one of the 24 positions. No identifier is compared with the existing ones or redrawn.
\<close>

theorem generate_uuid_by_draws:
  "fst (generate_uuid w) =
     map (\<lambda>i. ''0123456789ABCDEF'' ! (random w (drawn w + i) mod 16)) [0..<24] \<and>
   fst (generate_uuid (w\<lparr>files := fs\<rparr>)) = fst (generate_uuid w) \<and>
   files (snd (generate_uuid w)) = files w \<and>
   drawn (snd (generate_uuid w)) = drawn w + 24 \<and>
   (fst (generate_uuid w) = fst (generate_uuid w') \<longleftrightarrow>
      (\<forall>i<24. random w (drawn w + i) mod 16 = random w' (drawn w' + i) mod 16))"
proof -
  have eq: "(map (\<lambda>i. ''0123456789ABCDEF'' ! (random w (drawn w + i) mod 16)) [0..<24] =
             map (\<lambda>i. ''0123456789ABCDEF'' ! (random w' (drawn w' + i) mod 16)) [0..<24]) =
            (\<forall>i<24. random w (drawn w + i) mod 16 = random w' (drawn w' + i) mod 16)"
    unfolding map_eq_conv by (auto simp: hex_digits_inj simp del: upt_Suc)
  show ?thesis
    using eq by (simp add: generate_uuid_def choices_eq del: upt_Suc)
qed

theorem generate_uuid_by_draws_witness:
  "fst (generate_uuid (world_with [] [] (\<lambda>i. i mod 24))) =
     fst (generate_uuid (snd (generate_uuid (world_with [] [] (\<lambda>i. i mod 24)))))"
proof -
  have d: "drawn (snd (generate_uuid (world_with [] [] (\<lambda>i. i mod 24)))) = 24"
    and r: "random (snd (generate_uuid (world_with [] [] (\<lambda>i. i mod 24)))) = (\<lambda>i. i mod 24)"
    by (simp_all add: generate_uuid_def choices_eq world_with_def)
  have h: "\<forall>i<24. random (world_with [] [] (\<lambda>i. i mod 24))
                     (drawn (world_with [] [] (\<lambda>i. i mod 24)) + i) mod 16 =
                   random (snd (generate_uuid (world_with [] [] (\<lambda>i. i mod 24))))
                     (drawn (snd (generate_uuid (world_with [] [] (\<lambda>i. i mod 24)))) + i) mod 16"
    unfolding d r by (simp add: world_with_def)
  show ?thesis
    using h generate_uuid_by_draws [of "world_with [] [] (\<lambda>i. i mod 24)" "files (world_with [] [] (\<lambda>i. i mod 24))"
        "snd (generate_uuid (world_with [] [] (\<lambda>i. i mod 24)))"]
    by blast
qed

subsection \<open>A run of fix_xcode_project.py\<close>

lemma alias_names:
  "map (\<lambda>m. group alias_descriptor m 2) (re_findall swift_file_ref_pattern alias_descriptor) = [''Alias.swift'']"
  by (simp only: alias_descriptor_def swift_file_ref_pattern_def eval_rules cong: if_weak_cong option.case_cong_weak)

lemma alias_searches:
  "re_search (lit ''/* Begin PBXBuildFile section */'') alias_descriptor = Some (0, 32, [])"
  "re_search (lit ''/* Begin PBXFileReference section */'') alias_descriptor = Some (33, 69, [])"
  "re_search (lit ''/* Begin PBXSourcesBuildPhase section */'') alias_descriptor = Some (141, 181, [])"
  "re_search (lit ''A1000018294A0000000000001 /* DualCameraApp */ = {'') alias_descriptor = Some (184, 233, [])"
  by (simp_all only: alias_descriptor_def eval_rules cong: if_weak_cong option.case_cong_weak)


lemma repeating_digits:
  "map (\<lambda>i. ''0123456789ABCDEF'' ! (i mod 24 mod 16)) [0..<24] = ''0123456789ABCDEF01234567''"
  by code_simp

lemma repeating_uuid:
  assumes "random w = (\<lambda>i. i mod 24)" and "drawn w = 0 \<or> drawn w = 24"
  shows "fst (generate_uuid w) = ''0123456789ABCDEF01234567''"
  using assms by (auto simp: generate_uuid_def choices_eq repeating_digits simp del: upt_Suc)

lemma generate_uuid_world:
  "snd (generate_uuid w) = w\<lparr>drawn := drawn w + 24\<rparr>"
  by (simp add: generate_uuid_def choices_eq)

lemma alias_make_additions:
  assumes "random w = (\<lambda>i. i mod 24)" and "drawn w = 0"
  shows "make_additions [''Foo.swift''] no_additions w = (alias_additions, w\<lparr>drawn := 48\<rparr>)"
proof -
  have 1: "generate_uuid w = (''0123456789ABCDEF01234567'', w\<lparr>drawn := 24\<rparr>)"
    using repeating_uuid [of w] generate_uuid_world [of w] assms
    by (simp add: prod_eq_iff)
  have 2: "generate_uuid (w\<lparr>drawn := 24\<rparr>) = (''0123456789ABCDEF01234567'', w\<lparr>drawn := 48\<rparr>)"
    using repeating_uuid [of "w\<lparr>drawn := 24\<rparr>"] generate_uuid_world [of "w\<lparr>drawn := 24\<rparr>"] assms
    by (simp add: prod_eq_iff)
  show ?thesis
    by (simp add: 1 2 no_additions_def alias_additions_def build_file_entry_def
        file_ref_entry_def sources_entry_def group_entry_def)
qed

lemmas line_rules =
  insert_additions_def Let_def split_nl.simps insert_reversed_def foldl.simps rev.simps insert_at_def
  find_sources_insert_def find_group_insert_def first_index_def find.simps upt_rec join.simps
  additions.simps

lemma alias_insert_additions:
  "insert_additions alias_descriptor (0, 32, []) (33, 69, []) (141, 181, []) (184, 233, [])
     alias_additions = alias_descriptor_updated"
  by (simp only: alias_descriptor_updated_def alias_descriptor_def alias_additions_def line_rules eval_rules
      cong: if_weak_cong option.case_cong_weak list.case_cong_weak)


lemma show_nat_one: "show_nat (Suc 0) = ''1''"
  by code_simp

lemma alias_missing:
  assumes "files w project_file = Some alias_descriptor"
    and "glob_result w ''DualCameraApp/*.swift'' = [''DualCameraApp/Foo.swift'']"
  shows "get_missing_swift_files w = Inr [''Foo.swift'']"
  using assms by (simp add: get_missing_swift_files_def Let_def alias_names basename_def)

lemma alias_update:
  assumes f: "files w project_file = Some alias_descriptor"
    and g: "glob_result w ''DualCameraApp/*.swift'' = [''DualCameraApp/Foo.swift'']"
    and r: "random w = (\<lambda>i. i mod 24)" and d: "drawn w = 0"
  shows "update_project_file w =
           (None,
            prints [''Successfully added 1 Swift files to the project!'', ''  + Foo.swift'']
              (write_file project_file alias_descriptor_updated
                 ((print ''Adding 1 missing Swift files to project...'' w)\<lparr>drawn := 48\<rparr>)))"
proof -
  have a: "make_additions [''Foo.swift''] no_additions
             (print ''Adding 1 missing Swift files to project...'' w) =
           (alias_additions, (print ''Adding 1 missing Swift files to project...'' w)\<lparr>drawn := 48\<rparr>)"
    by (rule alias_make_additions) (simp_all add: r d)
  show ?thesis
    unfolding update_project_file_def
    by (simp add: f alias_missing [OF f g] alias_searches a alias_insert_additions Let_def
        show_nat_one del: make_additions.simps show_nat.simps)
qed

lemma alias_run:
  "fst (fix_xcode_project_main alias_world) = None"
  "files (snd (fix_xcode_project_main alias_world)) project_file = Some alias_descriptor_updated"
  "stdout (snd (fix_xcode_project_main alias_world)) =
     [''Fixing Xcode project to include all Swift files...'',
      ''Adding 1 missing Swift files to project...'',
      ''Successfully added 1 Swift files to the project!'',
      ''  + Foo.swift'',
      NL @ ''Project file updated successfully!'']"
proof -
  let ?w = "print ''Fixing Xcode project to include all Swift files...'' alias_world"
  have u: "update_project_file ?w =
           (None,
            prints [''Successfully added 1 Swift files to the project!'', ''  + Foo.swift'']
              (write_file project_file alias_descriptor_updated
                 ((print ''Adding 1 missing Swift files to project...'' ?w)\<lparr>drawn := 48\<rparr>)))"
    by (rule alias_update) (simp_all add: alias_world_def world_with_def print_def)
  show "fst (fix_xcode_project_main alias_world) = None"
    by (simp add: fix_xcode_project_main_def u)
  show "files (snd (fix_xcode_project_main alias_world)) project_file = Some alias_descriptor_updated"
    by (simp add: fix_xcode_project_main_def u write_file_def)
  show "stdout (snd (fix_xcode_project_main alias_world)) =
     [''Fixing Xcode project to include all Swift files...'',
      ''Adding 1 missing Swift files to project...'',
      ''Successfully added 1 Swift files to the project!'',
      ''  + Foo.swift'',
      NL @ ''Project file updated successfully!'']"
  proof -
    have "stdout alias_world = []"
      by (simp add: alias_world_def world_with_def)
    then show ?thesis
      by (simp add: fix_xcode_project_main_def u write_file_def)
  qed
qed

lemma alias_updated_lines:
  "split_nl alias_descriptor_updated =
     [''/* Begin PBXBuildFile section */'',
      ''/* Begin PBXFileReference section */'',
      TAB2 @ ''A1 /* Alias.swift */ = {isa = PBXFileReference; path = Foo.swift; };'',
      ''/* Begin PBXSourcesBuildPhase section */'',
      TAB2 @ ''A1000018294A0000000000001 /* DualCameraApp */ = {'',
      [],
      TAB2 @ ''0123456789ABCDEF01234567294A0000000000001 /* Foo.swift in Sources */ = {isa = PBXBuildFile; fileRef = 0123456789ABCDEF01234567294A0000000000001 /* Foo.swift */; };'',
      TAB2 @ ''0123456789ABCDEF01234567294A0000000000001 /* Foo.swift */ = {isa = PBXFileReference; lastKnownFileType = sourcecode.swift; path = Foo.swift; sourceTree = \"<group>\"; };'',
      TAB3 @ ''0123456789ABCDEF01234567294A0000000000001 /* Foo.swift in Sources */,'',
      TAB3 @ ''0123456789ABCDEF01234567294A0000000000001 /* Foo.swift */,'']"
  by (simp only: alias_descriptor_updated_def alias_descriptor_def split_nl.simps append.simps
      list.case if_True if_False simp_thms char.inject cong: if_weak_cong list.case_cong_weak)

lemma alias_updated_record_ids:
  "record_ids alias_descriptor_updated =
     [''A1'', ''A1000018294A0000000000001'', ''0123456789ABCDEF01234567294A0000000000001'',
      ''0123456789ABCDEF01234567294A0000000000001'']"
  unfolding record_ids_def alias_updated_lines by code_simp



text \<open>
  C2, as stated, fails. In the run of fix_xcode_project.py on \<open>alias_world\<close>, whose random
  source repeats itself after 24 draws, the descriptor written holds a PBXBuildFile record
  and a PBXFileReference record with one and the same identifier.
\<close>

theorem two_records_share_an_identifier:
  "files (snd (fix_xcode_project_main alias_world)) project_file = Some alias_descriptor_updated \<and>
   record_ids alias_descriptor_updated =
     [''A1'', ''A1000018294A0000000000001'', ''0123456789ABCDEF01234567294A0000000000001'',
      ''0123456789ABCDEF01234567294A0000000000001''] \<and>
   \<not> distinct (record_ids alias_descriptor_updated)"
  by (simp add: alias_run alias_updated_record_ids)

subsection \<open>A known display name is skipped\<close>






subsection \<open>The lines of a text after \<open>replace\<close>\<close>








declare replace_py.simps [simp del]












subsection \<open>comprehensive_fix.py adds members, not records\<close>

















subsection \<open>The group update inserts and never removes\<close>









end
